theory Spec2Isabelle
  imports Complex_Main
begin

section \<open>Data model (src/lib/types.ts)\<close>

text \<open>
  The interface \<open>PetAgeData\<close> is a record with the five fields of the source. A
  TypeScript \<open>string\<close> is a \<^typ>\<open>string\<close>; \<open>===\<close> on two strings is equality of
  their contents. A TypeScript \<open>number\<close> is modelled as a \<^typ>\<open>real\<close>, the reading the
  specification gives it ("\<open>petAge\<close> is any real number"): rounding, infinities and NaN of
  IEEE doubles are outside this model.
\<close>

record PetAgeData =
  species :: string
  breed :: string
  firstPhaseYears :: real
  firstPhaseValue :: real
  laterPerYear :: real

section \<open>The operations (src/lib/age-utils.ts)\<close>

text \<open>
  \<open>calculateHumanAge\<close>: \<open>data.find(p)\<close> returns the first element that satisfies \<open>p\<close>
  or \<open>undefined\<close>, which is \<^const>\<open>find\<close> on lists. The result type
  \<open>number | null\<close> is \<^typ>\<open>real option\<close>, \<open>null\<close> being \<^const>\<open>None\<close>.
\<close>

definition calculateHumanAge ::
  "string \<Rightarrow> string \<Rightarrow> real \<Rightarrow> PetAgeData list \<Rightarrow> real option" where
  "calculateHumanAge sp br petAge data =
     (case find (\<lambda>item. species item = sp \<and> breed item = br) data of
        None \<Rightarrow> None
      | Some entry \<Rightarrow>
          (if petAge \<le> firstPhaseYears entry
           then Some (petAge * firstPhaseValue entry)
           else Some (firstPhaseYears entry * firstPhaseValue entry
                      + (petAge - firstPhaseYears entry) * laterPerYear entry)))"

text \<open>
  A JavaScript \<open>Set\<close> keeps its elements in insertion order and ignores the insertion of
  an element it already holds. It is modelled as the list of its elements in insertion
  order: \<open>set_add\<close> is \<open>Set.prototype.add\<close>, \<open>new_Set\<close> is the constructor called on an
  iterable, which adds the elements one by one from the left, and spreading the set into
  an array yields that list.
\<close>

definition set_add :: "'a list \<Rightarrow> 'a \<Rightarrow> 'a list" where
  "set_add s x = (if x \<in> set s then s else s @ [x])"

definition new_Set :: "'a list \<Rightarrow> 'a list" where
  "new_Set xs = foldl set_add [] xs"

definition getUniqueSpecies :: "PetAgeData list \<Rightarrow> string list" where
  "getUniqueSpecies data = new_Set (map species data)"

definition getBreedsBySpecies :: "string \<Rightarrow> PetAgeData list \<Rightarrow> string list" where
  "getBreedsBySpecies sp data = map breed (filter (\<lambda>item. species item = sp) data)"

text \<open>
  The three functions read the array they are given and write to nothing: \<open>find\<close>,
  \<open>map\<close> and \<open>filter\<close> leave their receiver as it is, and the set and the arrays
  that are built are fresh. They are therefore functions of their arguments alone, which
  is what a definition in HOL is.
\<close>

section \<open>Notions used to state the properties\<close>

text \<open>
  \<open>matches sp br item\<close> is the predicate the lookup tests; \<open>first_match sp br data i\<close> says
  that position \<open>i\<close> of the dataset is the first one whose record matches.
  \<open>piecewise entry petAge\<close> is the two-phase formula of the specification, and
  \<open>first_index x xs\<close> the position at which \<open>x\<close> first occurs in \<open>xs\<close> (the length
  of \<open>xs\<close> when it does not occur).
\<close>

definition matches :: "string \<Rightarrow> string \<Rightarrow> PetAgeData \<Rightarrow> bool" where
  "matches sp br item \<longleftrightarrow> species item = sp \<and> breed item = br"

definition first_match :: "string \<Rightarrow> string \<Rightarrow> PetAgeData list \<Rightarrow> nat \<Rightarrow> bool" where
  "first_match sp br data i \<longleftrightarrow>
     i < length data \<and> matches sp br (data ! i) \<and> (\<forall>j<i. \<not> matches sp br (data ! j))"

definition piecewise :: "PetAgeData \<Rightarrow> real \<Rightarrow> real" where
  "piecewise entry petAge =
     (if petAge \<le> firstPhaseYears entry
      then petAge * firstPhaseValue entry
      else firstPhaseYears entry * firstPhaseValue entry
           + (petAge - firstPhaseYears entry) * laterPerYear entry)"

definition first_index :: "'a \<Rightarrow> 'a list \<Rightarrow> nat" where
  "first_index x xs = length (takeWhile (\<lambda>y. y \<noteq> x) xs)"

text \<open>The record of the specification's example scenarios, and two records with other keys.\<close>

definition labrador :: PetAgeData where
  "labrador = \<lparr>species = ''Dog'', breed = ''Labrador'',
     firstPhaseYears = 2, firstPhaseValue = 10.5, laterPerYear = 4\<rparr>"

definition siamese :: PetAgeData where
  "siamese = \<lparr>species = ''Cat'', breed = ''Siamese'',
     firstPhaseYears = 1, firstPhaseValue = 15, laterPerYear = 4\<rparr>"

definition poodle :: PetAgeData where
  "poodle = \<lparr>species = ''Dog'', breed = ''Poodle'',
     firstPhaseYears = 2, firstPhaseValue = 12, laterPerYear = 5\<rparr>"

text \<open>
  Two further records with the key of \<open>labrador\<close>: one whose second-phase rate is
  negative, and one with a longer first phase.
\<close>

definition labrador_declining :: PetAgeData where
  "labrador_declining = \<lparr>species = ''Dog'', breed = ''Labrador'',
     firstPhaseYears = 2, firstPhaseValue = 10, laterPerYear = - 4\<rparr>"

definition labrador_late :: PetAgeData where
  "labrador_late = \<lparr>species = ''Dog'', breed = ''Labrador'',
     firstPhaseYears = 3, firstPhaseValue = 7, laterPerYear = 4\<rparr>"

text \<open>
  The two invariants the specification places on the dataset: the (species, breed) pair is
  its primary key, and the numeric fields of a record are strictly positive.
\<close>

definition key :: "PetAgeData \<Rightarrow> string \<times> string" where
  "key item = (species item, breed item)"

definition unique_keys :: "PetAgeData list \<Rightarrow> bool" where
  "unique_keys data \<longleftrightarrow> distinct (map key data)"

definition positive_fields :: "PetAgeData \<Rightarrow> bool" where
  "positive_fields item \<longleftrightarrow>
     0 < firstPhaseYears item \<and> 0 < firstPhaseValue item \<and> 0 < laterPerYear item"

section \<open>The lookup\<close>

lemma find_first_match:
  assumes "first_match sp br data i"
  shows "find (\<lambda>item. species item = sp \<and> breed item = br) data = Some (data ! i)"
proof -
  from assms have "i < length data" "species (data ! i) = sp \<and> breed (data ! i) = br"
    "\<forall>j<i. \<not> (species (data ! j) = sp \<and> breed (data ! j) = br)"
    by (simp_all add: first_match_def matches_def)
  then show ?thesis
    by (subst find_Some_iff) blast
qed

lemma find_no_match:
  "find (\<lambda>item. species item = sp \<and> breed item = br) data = None
     \<longleftrightarrow> (\<forall>item\<in>set data. \<not> matches sp br item)"
  by (auto simp add: find_None_iff matches_def)

lemma calculateHumanAge_first_match:
  assumes "first_match sp br data i"
  shows "calculateHumanAge sp br petAge data = Some (piecewise (data ! i) petAge)"
  by (simp add: calculateHumanAge_def piecewise_def find_first_match [OF assms])

lemma first_match_exists:
  assumes "item \<in> set data" and "matches sp br item"
  shows "\<exists>i. first_match sp br data i"
proof -
  from assms obtain e where
    "find (\<lambda>item. species item = sp \<and> breed item = br) data = Some e"
    using find_no_match [of sp br data] by (cases "find (\<lambda>item. species item = sp \<and> breed item = br) data") auto
  then show ?thesis
    unfolding find_Some_iff first_match_def matches_def by blast
qed

lemma calculateHumanAge_None_iff:
  "calculateHumanAge sp br petAge data = None \<longleftrightarrow> (\<forall>item\<in>set data. \<not> matches sp br item)"
  by (auto simp add: calculateHumanAge_def find_no_match [symmetric] split: option.splits)

lemma first_match_append:
  assumes "\<forall>item\<in>set pre. \<not> matches sp br item" and "matches sp br r"
  shows "first_match sp br (pre @ r # post) (length pre)"
  using assms by (auto simp add: first_match_def nth_append)

lemma first_match_of_record:
  assumes "r \<in> set data"
  shows "\<exists>i. first_match (species r) (breed r) data i"
  using assms by (intro first_match_exists [of r]) (simp_all add: matches_def)

lemma first_match_unique_keys:
  assumes "unique_keys data" and "r \<in> set data"
  shows "\<exists>i. first_match (species r) (breed r) data i \<and> data ! i = r"
proof -
  from first_match_of_record [OF assms(2)] obtain i
    where i: "first_match (species r) (breed r) data i" ..
  then have "data ! i \<in> set data" and "key (data ! i) = key r"
    by (simp_all add: first_match_def matches_def key_def)
  moreover have "inj_on key (set data)"
    using assms(1) by (simp add: unique_keys_def distinct_map)
  ultimately have "data ! i = r"
    using assms(2) by (auto dest: inj_onD)
  with i show ?thesis
    by blast
qed

section \<open>The conversion\<close>

text \<open>
  C1. When the lookup of \<open>calculateHumanAge\<close> finds a record (the first record of the
  dataset whose species and breed equal the arguments), the result is
  \<open>petAge * firstPhaseValue\<close> if \<open>petAge \<le> firstPhaseYears\<close>, and
  \<open>firstPhaseYears * firstPhaseValue + (petAge - firstPhaseYears) * laterPerYear\<close>
  otherwise, for every real \<open>petAge\<close>; nothing rounds or clamps the value, so for a
  non-positive \<open>petAge\<close> within the first phase of a record with a positive
  \<open>firstPhaseValue\<close> the result is the non-positive number \<open>petAge * firstPhaseValue\<close>.
\<close>

theorem calculateHumanAge_formula:
  assumes "first_match sp br data i"
  shows "(petAge \<le> firstPhaseYears (data ! i) \<longrightarrow>
            calculateHumanAge sp br petAge data = Some (petAge * firstPhaseValue (data ! i)))
       \<and> (firstPhaseYears (data ! i) < petAge \<longrightarrow>
            calculateHumanAge sp br petAge data =
              Some (firstPhaseYears (data ! i) * firstPhaseValue (data ! i)
                    + (petAge - firstPhaseYears (data ! i)) * laterPerYear (data ! i)))
       \<and> (petAge \<le> 0 \<and> 0 < firstPhaseYears (data ! i) \<and> 0 < firstPhaseValue (data ! i) \<longrightarrow>
            (\<exists>h. calculateHumanAge sp br petAge data = Some h \<and> h \<le> 0
                 \<and> (h = 0 \<longleftrightarrow> petAge = 0)))"
  by (auto simp add: calculateHumanAge_first_match [OF assms] piecewise_def mult_le_0_iff)

theorem calculateHumanAge_formula_witness:
  "first_match ''Dog'' ''Labrador'' [siamese, labrador] 1
   \<and> calculateHumanAge ''Dog'' ''Labrador'' 1 [siamese, labrador] = Some 10.5
   \<and> calculateHumanAge ''Dog'' ''Labrador'' 5 [siamese, labrador] = Some 33
   \<and> calculateHumanAge ''Dog'' ''Labrador'' (- 1) [siamese, labrador] = Some (- 10.5)"
proof -
  have h: "first_match ''Dog'' ''Labrador'' [siamese, labrador] 1"
    by (simp add: first_match_def matches_def siamese_def labrador_def)
  show ?thesis
    using h calculateHumanAge_formula [OF h, of 1] calculateHumanAge_formula [OF h, of 5]
      calculateHumanAge_formula [OF h, of "- 1"]
    by (simp add: labrador_def)
qed

text \<open>
  C2. If no record of the dataset has both its species equal to \<open>species\<close> and its breed
  equal to \<open>breed\<close>, \<open>calculateHumanAge\<close> returns \<open>null\<close>. No branch of the function
  raises: when some record matches it returns a number, so in every case the result is a
  number or \<open>null\<close>.
\<close>

theorem calculateHumanAge_not_found:
  "((\<forall>item\<in>set data. \<not> (species item = sp \<and> breed item = br)) \<longrightarrow>
      calculateHumanAge sp br petAge data = None)
   \<and> ((\<exists>item\<in>set data. species item = sp \<and> breed item = br) \<longrightarrow>
      (\<exists>h. calculateHumanAge sp br petAge data = Some h))"
proof (intro conjI impI)
  assume "\<forall>item\<in>set data. \<not> (species item = sp \<and> breed item = br)"
  then have "find (\<lambda>item. species item = sp \<and> breed item = br) data = None"
    by (simp add: find_no_match matches_def)
  then show "calculateHumanAge sp br petAge data = None"
    by (simp add: calculateHumanAge_def)
next
  assume "\<exists>item\<in>set data. species item = sp \<and> breed item = br"
  then obtain i where "first_match sp br data i"
    using first_match_exists [of _ data sp br] by (auto simp add: matches_def)
  then show "\<exists>h. calculateHumanAge sp br petAge data = Some h"
    by (simp add: calculateHumanAge_first_match)
qed

theorem calculateHumanAge_not_found_witness:
  "\<not> (species labrador = ''dog'' \<and> breed labrador = ''Labrador'')
   \<and> calculateHumanAge ''dog'' ''Labrador'' 3 [labrador] = None
   \<and> (\<exists>item\<in>set [labrador]. species item = ''Dog'' \<and> breed item = ''Labrador'')
   \<and> (\<exists>h. calculateHumanAge ''Dog'' ''Labrador'' 3 [labrador] = Some h)"
proof -
  have h: "\<forall>item\<in>set [labrador]. \<not> (species item = ''dog'' \<and> breed item = ''Labrador'')"
    by (simp add: labrador_def)
  have k: "\<exists>item\<in>set [labrador]. species item = ''Dog'' \<and> breed item = ''Labrador''"
    by (simp add: labrador_def)
  have n: "\<not> (species labrador = ''dog'' \<and> breed labrador = ''Labrador'')"
    by (simp add: labrador_def)
  show ?thesis
    using h k n calculateHumanAge_not_found [of "[labrador]" "''dog''" "''Labrador''" 3]
      calculateHumanAge_not_found [of "[labrador]" "''Dog''" "''Labrador''" 3]
    by blast
qed

text \<open>
  C7. When several records of the dataset match a (species, breed) pair, the result of
  \<open>calculateHumanAge\<close> is computed from the first of them in dataset order and from no
  other record: if no record before \<open>r\<close> matches and \<open>r\<close> does, the result on the whole
  dataset is the two-phase formula on \<open>r\<close>, which is the result on the dataset that holds
  \<open>r\<close> alone, whatever follows \<open>r\<close>.
\<close>

theorem calculateHumanAge_first_of_duplicates:
  assumes "\<forall>item\<in>set pre. \<not> (species item = sp \<and> breed item = br)"
    and "species r = sp \<and> breed r = br"
  shows "calculateHumanAge sp br petAge (pre @ r # post) = Some (piecewise r petAge)
       \<and> calculateHumanAge sp br petAge (pre @ r # post) = calculateHumanAge sp br petAge [r]"
proof -
  have "first_match sp br (pre @ r # post) (length pre)"
    using assms by (intro first_match_append) (simp_all add: matches_def)
  then have "calculateHumanAge sp br petAge (pre @ r # post) = Some (piecewise r petAge)"
    by (simp add: calculateHumanAge_first_match)
  moreover have "first_match sp br ([] @ r # []) (length ([]::PetAgeData list))"
    using assms by (intro first_match_append) (simp_all add: matches_def)
  then have "calculateHumanAge sp br petAge [r] = Some (piecewise r petAge)"
    using calculateHumanAge_first_match [of sp br "[r]" 0 petAge] by simp
  ultimately show ?thesis
    by simp
qed

theorem calculateHumanAge_first_of_duplicates_witness:
  "\<not> (species siamese = ''Dog'' \<and> breed siamese = ''Labrador'')
   \<and> (species labrador = ''Dog'' \<and> breed labrador = ''Labrador'')
   \<and> (species labrador_late = ''Dog'' \<and> breed labrador_late = ''Labrador'')
   \<and> calculateHumanAge ''Dog'' ''Labrador'' 3 ([siamese] @ labrador # [labrador_late, poodle]) = Some 25
   \<and> calculateHumanAge ''Dog'' ''Labrador'' 3 [labrador] = Some 25
   \<and> calculateHumanAge ''Dog'' ''Labrador'' 3 [labrador_late] = Some 21"
proof -
  have h: "\<forall>item\<in>set [siamese]. \<not> (species item = ''Dog'' \<and> breed item = ''Labrador'')"
    by (simp add: siamese_def)
  have k: "species labrador = ''Dog'' \<and> breed labrador = ''Labrador''"
    by (simp add: labrador_def)
  have l: "species labrador_late = ''Dog'' \<and> breed labrador_late = ''Labrador''"
    by (simp add: labrador_late_def)
  have e: "\<forall>item\<in>set []. \<not> (species item = ''Dog'' \<and> breed item = ''Labrador'')"
    by simp
  have "piecewise labrador 3 = 25" "piecewise labrador_late 3 = 21"
    by (simp_all add: piecewise_def labrador_def labrador_late_def)
  then show ?thesis
    using h k l
      calculateHumanAge_first_of_duplicates [OF h k, of 3 "[labrador_late, poodle]"]
      calculateHumanAge_first_of_duplicates [OF e l, of 3 "[]"]
    by auto
qed

lemma piecewise_first_phase: "a \<le> firstPhaseYears e \<Longrightarrow> piecewise e a = a * firstPhaseValue e"
  by (simp add: piecewise_def)

lemma piecewise_second_phase:
  "firstPhaseYears e \<le> a \<Longrightarrow>
     piecewise e a = firstPhaseYears e * firstPhaseValue e + (a - firstPhaseYears e) * laterPerYear e"
  by (simp add: piecewise_def)

lemma piecewise_near_boundary:
  assumes "0 < eps"
  shows "\<exists>d>0. \<forall>a. \<bar>a - firstPhaseYears e\<bar> < d \<longrightarrow>
           \<bar>piecewise e a - firstPhaseYears e * firstPhaseValue e\<bar> < eps"
proof -
  define K where "K = \<bar>firstPhaseValue e\<bar> + \<bar>laterPerYear e\<bar> + 1"
  have K: "0 < K" "\<bar>firstPhaseValue e\<bar> \<le> K" "\<bar>laterPerYear e\<bar> \<le> K"
    by (simp_all add: K_def)
  have "\<bar>piecewise e a - firstPhaseYears e * firstPhaseValue e\<bar> < eps"
    if "\<bar>a - firstPhaseYears e\<bar> < eps / K" for a
  proof -
    from that K(1) have lt: "\<bar>a - firstPhaseYears e\<bar> * K < eps"
      by (simp add: pos_less_divide_eq)
    have "piecewise e a - firstPhaseYears e * firstPhaseValue e
            = (a - firstPhaseYears e) * (if a \<le> firstPhaseYears e then firstPhaseValue e else laterPerYear e)"
      by (simp add: piecewise_def algebra_simps)
    then have "\<bar>piecewise e a - firstPhaseYears e * firstPhaseValue e\<bar>
            = \<bar>a - firstPhaseYears e\<bar> * \<bar>if a \<le> firstPhaseYears e then firstPhaseValue e else laterPerYear e\<bar>"
      by (simp add: abs_mult)
    also have "\<dots> \<le> \<bar>a - firstPhaseYears e\<bar> * K"
      using K by (intro mult_left_mono) auto
    finally show ?thesis
      using lt by linarith
  qed
  moreover have "0 < eps / K"
    using assms K(1) by simp
  ultimately show ?thesis
    by blast
qed

text \<open>
  C6. In a dataset whose (species, breed) pairs are unique, the primary key of the data
  model, for every record of the dataset \<open>calculateHumanAge\<close> at
  \<open>petAge = firstPhaseYears\<close> returns \<open>firstPhaseYears * firstPhaseValue\<close>. The two
  branches agree at the boundary: the first-branch formula is the result for every
  \<open>petAge \<le> firstPhaseYears\<close>, the second-branch formula is the result for every
  \<open>petAge \<ge> firstPhaseYears\<close>, the boundary included, and the result comes as close to
  the boundary value as wanted when \<open>petAge\<close> is close enough to \<open>firstPhaseYears\<close>, on
  either side.
\<close>

theorem calculateHumanAge_boundary:
  assumes "unique_keys data" and "r \<in> set data"
  shows "calculateHumanAge (species r) (breed r) (firstPhaseYears r) data
           = Some (firstPhaseYears r * firstPhaseValue r)
       \<and> (\<forall>a. a \<le> firstPhaseYears r \<longrightarrow>
            calculateHumanAge (species r) (breed r) a data = Some (a * firstPhaseValue r))
       \<and> (\<forall>a. firstPhaseYears r \<le> a \<longrightarrow>
            calculateHumanAge (species r) (breed r) a data
              = Some (firstPhaseYears r * firstPhaseValue r + (a - firstPhaseYears r) * laterPerYear r))
       \<and> (\<forall>eps>0. \<exists>d>0. \<forall>a. \<bar>a - firstPhaseYears r\<bar> < d \<longrightarrow>
            (\<exists>h. calculateHumanAge (species r) (breed r) a data = Some h
                 \<and> \<bar>h - firstPhaseYears r * firstPhaseValue r\<bar> < eps))"
proof -
  from first_match_unique_keys [OF assms] obtain i
    where "first_match (species r) (breed r) data i" and "data ! i = r"
    by blast
  then have calc: "calculateHumanAge (species r) (breed r) a data = Some (piecewise r a)" for a
    using calculateHumanAge_first_match [of "species r" "breed r" data i a] by simp
  show ?thesis
    using piecewise_near_boundary [of _ r]
    by (simp add: calc piecewise_first_phase piecewise_second_phase)
qed

theorem calculateHumanAge_boundary_witness:
  "unique_keys [siamese, labrador] \<and> labrador \<in> set [siamese, labrador]
   \<and> calculateHumanAge ''Dog'' ''Labrador'' 2 [siamese, labrador] = Some 21
   \<and> calculateHumanAge ''Dog'' ''Labrador'' 1 [siamese, labrador] = Some 10.5
   \<and> calculateHumanAge ''Dog'' ''Labrador'' 2.5 [siamese, labrador] = Some 23"
proof -
  have u: "unique_keys [siamese, labrador]"
    by (simp add: unique_keys_def key_def siamese_def labrador_def)
  have m: "labrador \<in> set [siamese, labrador]"
    by simp
  note t = calculateHumanAge_boundary [OF u m]
  from t have "calculateHumanAge ''Dog'' ''Labrador'' 2 [siamese, labrador] = Some 21"
    by (simp add: labrador_def)
  moreover from t have "\<forall>a. a \<le> firstPhaseYears labrador \<longrightarrow>
      calculateHumanAge (species labrador) (breed labrador) a [siamese, labrador]
        = Some (a * firstPhaseValue labrador)"
    by blast
  then have "calculateHumanAge ''Dog'' ''Labrador'' 1 [siamese, labrador] = Some 10.5"
    by (simp add: labrador_def)
  moreover from t have "\<forall>a. firstPhaseYears labrador \<le> a \<longrightarrow>
      calculateHumanAge (species labrador) (breed labrador) a [siamese, labrador]
        = Some (firstPhaseYears labrador * firstPhaseValue labrador
                + (a - firstPhaseYears labrador) * laterPerYear labrador)"
    by blast
  then have "calculateHumanAge ''Dog'' ''Labrador'' 2.5 [siamese, labrador] = Some 23"
    by (simp add: labrador_def)
  ultimately show ?thesis
    using u m by simp
qed

text \<open>
  The primary key is what makes the lookup return the record itself. Where a key is
  repeated the lookup selects the earlier record: in \<open>[labrador, labrador_late]\<close> the
  conversion at the first-phase length \<open>3\<close> of \<open>labrador_late\<close> is
  \<open>2 * 10.5 + (3 - 2) * 4 = 25\<close>, while \<open>3 * 7 = 21\<close>.
\<close>

lemma duplicate_key_boundary:
  "\<not> unique_keys [labrador, labrador_late]
   \<and> calculateHumanAge (species labrador_late) (breed labrador_late) (firstPhaseYears labrador_late)
        [labrador, labrador_late] = Some 25
   \<and> firstPhaseYears labrador_late * firstPhaseValue labrador_late = 21"
  by (simp add: calculateHumanAge_def unique_keys_def key_def labrador_def labrador_late_def)

lemma piecewise_mono:
  assumes "0 \<le> firstPhaseValue e" and "0 \<le> laterPerYear e" and "a \<le> b"
  shows "piecewise e a \<le> piecewise e b"
proof -
  consider "b \<le> firstPhaseYears e" | "a \<le> firstPhaseYears e" "firstPhaseYears e < b"
    | "firstPhaseYears e < a"
    by linarith
  then show ?thesis
  proof cases
    case 1
    with assms show ?thesis
      by (simp add: piecewise_def mult_right_mono)
  next
    case 2
    have "a * firstPhaseValue e \<le> firstPhaseYears e * firstPhaseValue e"
      using 2 assms by (simp add: mult_right_mono)
    moreover have "0 \<le> (b - firstPhaseYears e) * laterPerYear e"
      using 2 assms by simp
    ultimately show ?thesis
      using 2 by (simp add: piecewise_def)
  next
    case 3
    have "(a - firstPhaseYears e) * laterPerYear e \<le> (b - firstPhaseYears e) * laterPerYear e"
      using assms by (simp add: mult_right_mono)
    with 3 assms show ?thesis
      by (simp add: piecewise_def)
  qed
qed

text \<open>
  C5. In a dataset that meets an invariant of the data model (its (species, breed) pairs
  are unique, or all its records have strictly positive numeric fields), for every record
  of the dataset with strictly positive \<open>firstPhaseYears\<close>, \<open>firstPhaseValue\<close> and
  \<open>laterPerYear\<close>, and for all ages \<open>0 \<le> a < b\<close>, the conversions at \<open>a\<close> and at \<open>b\<close>
  for the record's species and breed are numbers, and the first is at most the second.
\<close>

theorem calculateHumanAge_monotone:
  assumes "r \<in> set data" and "positive_fields r"
    and "unique_keys data \<or> (\<forall>item\<in>set data. positive_fields item)"
    and "0 \<le> a" and "a < b"
  shows "\<exists>x y. calculateHumanAge (species r) (breed r) a data = Some x
           \<and> calculateHumanAge (species r) (breed r) b data = Some y
           \<and> x \<le> y"
proof -
  have "\<exists>i. first_match (species r) (breed r) data i \<and> positive_fields (data ! i)"
    using assms(3)
  proof
    assume "unique_keys data"
    from first_match_unique_keys [OF this assms(1)] assms(2) show ?thesis
      by auto
  next
    assume all: "\<forall>item\<in>set data. positive_fields item"
    from first_match_of_record [OF assms(1)] obtain i
      where i: "first_match (species r) (breed r) data i" ..
    then have "data ! i \<in> set data"
      by (simp add: first_match_def)
    with all i show ?thesis
      by blast
  qed
  then obtain i where i: "first_match (species r) (breed r) data i"
    and pos: "positive_fields (data ! i)"
    by blast
  have "piecewise (data ! i) a \<le> piecewise (data ! i) b"
    using pos assms(5) by (intro piecewise_mono) (simp_all add: positive_fields_def)
  then show ?thesis
    by (simp add: calculateHumanAge_first_match [OF i])
qed

theorem calculateHumanAge_monotone_witness:
  "labrador \<in> set [siamese, labrador] \<and> positive_fields labrador
   \<and> unique_keys [siamese, labrador]
   \<and> labrador_late \<in> set [labrador, labrador_late] \<and> positive_fields labrador_late
   \<and> \<not> unique_keys [labrador, labrador_late]
   \<and> (0::real) \<le> 1 \<and> (1::real) < 5
   \<and> (\<exists>x y. calculateHumanAge ''Dog'' ''Labrador'' 1 [siamese, labrador] = Some x
           \<and> calculateHumanAge ''Dog'' ''Labrador'' 5 [siamese, labrador] = Some y
           \<and> x \<le> y)
   \<and> (\<exists>x y. calculateHumanAge ''Dog'' ''Labrador'' 1 [labrador, labrador_late] = Some x
           \<and> calculateHumanAge ''Dog'' ''Labrador'' 5 [labrador, labrador_late] = Some y
           \<and> x \<le> y)"
proof -
  have m: "labrador \<in> set [siamese, labrador]" "labrador_late \<in> set [labrador, labrador_late]"
    by simp_all
  have p: "positive_fields labrador" "positive_fields labrador_late"
    by (simp_all add: positive_fields_def labrador_def labrador_late_def)
  have u: "unique_keys [siamese, labrador]" "\<not> unique_keys [labrador, labrador_late]"
    by (simp_all add: unique_keys_def key_def siamese_def labrador_def labrador_late_def)
  have ap: "\<forall>item\<in>set [labrador, labrador_late]. positive_fields item"
    using p by simp
  have ages: "(0::real) \<le> 1" "(1::real) < 5"
    by simp_all
  have "\<exists>x y. calculateHumanAge (species labrador) (breed labrador) 1 [siamese, labrador] = Some x
           \<and> calculateHumanAge (species labrador) (breed labrador) 5 [siamese, labrador] = Some y
           \<and> x \<le> y"
    using u(1) by (intro calculateHumanAge_monotone m p ages) simp
  moreover have "\<exists>x y. calculateHumanAge (species labrador_late) (breed labrador_late) 1
                   [labrador, labrador_late] = Some x
           \<and> calculateHumanAge (species labrador_late) (breed labrador_late) 5
                   [labrador, labrador_late] = Some y
           \<and> x \<le> y"
    using ap by (intro calculateHumanAge_monotone m p ages) simp
  ultimately show ?thesis
    using m p u by (simp add: labrador_def labrador_late_def)
qed

text \<open>
  Where both invariants fail, a record with positive fields can stand behind a record with
  the same key and a negative rate, and the lookup selects the latter: in
  \<open>[labrador_declining, labrador]\<close> the conversion for the key of \<open>labrador\<close> is \<open>16\<close>
  at age \<open>3\<close> and \<open>12\<close> at age \<open>4\<close>.
\<close>

lemma shadowed_record_not_monotone:
  "\<not> unique_keys [labrador_declining, labrador] \<and> \<not> positive_fields labrador_declining
   \<and> calculateHumanAge (species labrador) (breed labrador) 3 [labrador_declining, labrador] = Some 16
   \<and> calculateHumanAge (species labrador) (breed labrador) 4 [labrador_declining, labrador] = Some 12"
  by (simp add: calculateHumanAge_def unique_keys_def key_def positive_fields_def
      labrador_def labrador_declining_def)

section \<open>The species enumerator\<close>

lemma new_Set_snoc: "new_Set (xs @ [x]) = set_add (new_Set xs) x"
  by (simp add: new_Set_def)

lemma set_new_Set: "set (new_Set xs) = set xs"
  by (induction xs rule: rev_induct) (auto simp add: new_Set_snoc set_add_def new_Set_def)

lemma distinct_new_Set: "distinct (new_Set xs)"
  by (induction xs rule: rev_induct) (auto simp add: new_Set_snoc set_add_def new_Set_def)

lemma first_index_less: "x \<in> set xs \<Longrightarrow> first_index x xs < length xs"
  by (induction xs) (auto simp add: first_index_def)

lemma first_index_append_old: "x \<in> set xs \<Longrightarrow> first_index x (xs @ ys) = first_index x xs"
  by (simp add: first_index_def)

lemma first_index_append_new: "x \<notin> set xs \<Longrightarrow> first_index x (xs @ [x]) = length xs"
  by (induction xs) (auto simp add: first_index_def)

lemma first_index_order_new_Set:
  "sorted_wrt (\<lambda>s t. first_index s xs < first_index t xs) (new_Set xs)"
proof (induction xs rule: rev_induct)
  case Nil
  show ?case by (simp add: new_Set_def)
next
  case (snoc x xs)
  have old: "sorted_wrt (\<lambda>s t. first_index s (xs @ [x]) < first_index t (xs @ [x])) (new_Set xs)"
    using snoc.IH
    by (rule sorted_wrt_mono_rel [rotated]) (simp add: set_new_Set first_index_append_old)
  show ?case
  proof (cases "x \<in> set xs")
    case True
    then show ?thesis
      using old by (simp add: new_Set_snoc set_add_def set_new_Set)
  next
    case False
    then have "\<forall>s\<in>set (new_Set xs). first_index s (xs @ [x]) < first_index x (xs @ [x])"
      by (simp add: set_new_Set first_index_append_old first_index_append_new first_index_less)
    then show ?thesis
      using old False by (simp add: new_Set_snoc set_add_def set_new_Set sorted_wrt_append)
  qed
qed

text \<open>
  C3. \<open>getUniqueSpecies data\<close> holds exactly the species values of the records of the
  dataset, each once, and in the order of their first occurrences: of two entries of the
  result, the earlier one first occurs in the dataset before the later one does.
\<close>

theorem getUniqueSpecies_first_occurrences:
  "set (getUniqueSpecies data) = species ` set data
   \<and> distinct (getUniqueSpecies data)
   \<and> sorted_wrt (\<lambda>s t. first_index s (map species data) < first_index t (map species data))
        (getUniqueSpecies data)"
  by (simp add: getUniqueSpecies_def set_new_Set distinct_new_Set first_index_order_new_Set)

theorem getUniqueSpecies_first_occurrences_witness:
  "set (getUniqueSpecies [labrador, siamese, poodle]) = {''Dog'', ''Cat''}
   \<and> distinct (getUniqueSpecies [labrador, siamese, poodle])
   \<and> sorted_wrt (\<lambda>s t. first_index s [''Dog'', ''Cat'', ''Dog''] < first_index t [''Dog'', ''Cat'', ''Dog''])
        (getUniqueSpecies [labrador, siamese, poodle])"
  using getUniqueSpecies_first_occurrences [of "[labrador, siamese, poodle]"]
  by (simp add: labrador_def siamese_def poodle_def insert_commute)

section \<open>The breed enumerator\<close>

lemma filter_by_index:
  "filter P xs = map ((!) xs) (filter (\<lambda>i. P (xs ! i)) [0..<length xs])"
proof -
  have "filter P (map ((!) xs) [0..<length xs]) =
          map ((!) xs) (filter (\<lambda>i. P (xs ! i)) [0..<length xs])"
    by (simp add: filter_map comp_def)
  then show ?thesis
    by (simp add: map_nth)
qed

lemma set_getBreedsBySpecies:
  "br \<in> set (getBreedsBySpecies sp data) \<longleftrightarrow> (\<exists>item\<in>set data. matches sp br item)"
  by (auto simp add: getBreedsBySpecies_def matches_def)

text \<open>
  C4. \<open>getBreedsBySpecies species data\<close> is the list of the breed fields at exactly the
  positions of the dataset whose record has the queried species, taken in increasing
  position: nothing is sorted and nothing is dropped, so the result has one entry for each
  matching record, duplicates included. When no record matches, the result is the empty
  list.
\<close>

theorem getBreedsBySpecies_matching_positions:
  "getBreedsBySpecies sp data =
     map (\<lambda>i. breed (data ! i)) (filter (\<lambda>i. species (data ! i) = sp) [0..<length data])
   \<and> length (getBreedsBySpecies sp data) = card {i. i < length data \<and> species (data ! i) = sp}
   \<and> ((\<forall>item\<in>set data. species item \<noteq> sp) \<longrightarrow> getBreedsBySpecies sp data = [])"
proof (intro conjI impI)
  show "getBreedsBySpecies sp data =
     map (\<lambda>i. breed (data ! i)) (filter (\<lambda>i. species (data ! i) = sp) [0..<length data])"
    unfolding getBreedsBySpecies_def
    by (subst filter_by_index) (simp add: comp_def)
  show "length (getBreedsBySpecies sp data) = card {i. i < length data \<and> species (data ! i) = sp}"
    by (simp add: getBreedsBySpecies_def length_filter_conv_card)
next
  assume "\<forall>item\<in>set data. species item \<noteq> sp"
  then show "getBreedsBySpecies sp data = []"
    by (simp add: getBreedsBySpecies_def filter_empty_conv)
qed

theorem getBreedsBySpecies_matching_positions_witness:
  "species labrador \<noteq> ''Cat'' \<and> species poodle \<noteq> ''Cat''
   \<and> getBreedsBySpecies ''Cat'' [labrador, poodle] = []
   \<and> getBreedsBySpecies ''Dog'' [labrador, siamese, poodle, labrador_late]
       = [''Labrador'', ''Poodle'', ''Labrador'']"
proof -
  have h: "\<forall>item\<in>set [labrador, poodle]. species item \<noteq> ''Cat''"
    by (simp add: labrador_def poodle_def)
  have "[0..<length [labrador, siamese, poodle, labrador_late]] = [0, 1, 2, 3]"
    by (simp add: upt_rec)
  then show ?thesis
    using h getBreedsBySpecies_matching_positions [of "''Cat''" "[labrador, poodle]"]
      getBreedsBySpecies_matching_positions [of "''Dog''" "[labrador, siamese, poodle, labrador_late]"]
    by (simp add: labrador_def siamese_def poodle_def labrador_late_def)
qed

section \<open>Agreement between the three functions\<close>

text \<open>
  C9. \<open>calculateHumanAge species breed petAge data\<close> is \<open>null\<close> if and only if \<open>breed\<close>
  is not an element of \<open>getBreedsBySpecies species data\<close>; so every (species, breed) pair
  that the breed enumerator offers yields a number.
\<close>

theorem calculateHumanAge_null_iff_breed_not_listed:
  "(calculateHumanAge sp br petAge data = None \<longleftrightarrow> br \<notin> set (getBreedsBySpecies sp data))
   \<and> (br \<in> set (getBreedsBySpecies sp data) \<longrightarrow>
        (\<exists>h. calculateHumanAge sp br petAge data = Some h))"
  using calculateHumanAge_None_iff [of sp br petAge data] set_getBreedsBySpecies [of br sp data]
  by auto

theorem calculateHumanAge_null_iff_breed_not_listed_witness:
  "''Labrador'' \<in> set (getBreedsBySpecies ''Dog'' [siamese, labrador])
   \<and> (\<exists>h. calculateHumanAge ''Dog'' ''Labrador'' 3 [siamese, labrador] = Some h)
   \<and> ''Siamese'' \<notin> set (getBreedsBySpecies ''Dog'' [siamese, labrador])
   \<and> calculateHumanAge ''Dog'' ''Siamese'' 3 [siamese, labrador] = None"
proof -
  have h: "''Labrador'' \<in> set (getBreedsBySpecies ''Dog'' [siamese, labrador])"
    "''Siamese'' \<notin> set (getBreedsBySpecies ''Dog'' [siamese, labrador])"
    by (simp_all add: getBreedsBySpecies_def siamese_def labrador_def)
  show ?thesis
    using h
      calculateHumanAge_null_iff_breed_not_listed [of "''Dog''" "''Labrador''" 3 "[siamese, labrador]"]
      calculateHumanAge_null_iff_breed_not_listed [of "''Dog''" "''Siamese''" 3 "[siamese, labrador]"]
    by blast
qed

text \<open>
  C10. \<open>getBreedsBySpecies s data\<close> is non-empty if and only if \<open>s\<close> is an element of
  \<open>getUniqueSpecies data\<close>: every species the species enumerator lists has at least one
  breed, and a species it does not list has the empty breed list.
\<close>

theorem getBreedsBySpecies_nonempty_iff_listed:
  "(getBreedsBySpecies s data \<noteq> [] \<longleftrightarrow> s \<in> set (getUniqueSpecies data))
   \<and> (s \<in> set (getUniqueSpecies data) \<longrightarrow> getBreedsBySpecies s data \<noteq> [])
   \<and> (s \<notin> set (getUniqueSpecies data) \<longrightarrow> getBreedsBySpecies s data = [])"
  by (auto simp add: getBreedsBySpecies_def getUniqueSpecies_def set_new_Set filter_empty_conv)

theorem getBreedsBySpecies_nonempty_iff_listed_witness:
  "getBreedsBySpecies ''Dog'' [siamese, labrador] \<noteq> []
   \<and> ''Dog'' \<in> set (getUniqueSpecies [siamese, labrador])
   \<and> getBreedsBySpecies ''Bird'' [siamese, labrador] = []
   \<and> ''Bird'' \<notin> set (getUniqueSpecies [siamese, labrador])"
proof -
  have h: "getBreedsBySpecies ''Dog'' [siamese, labrador] \<noteq> []"
    "getBreedsBySpecies ''Bird'' [siamese, labrador] = []"
    by (simp_all add: getBreedsBySpecies_def siamese_def labrador_def)
  show ?thesis
    using h getBreedsBySpecies_nonempty_iff_listed [of "''Dog''" "[siamese, labrador]"]
      getBreedsBySpecies_nonempty_iff_listed [of "''Bird''" "[siamese, labrador]"]
    by blast
qed

section \<open>The example scenarios of the specification\<close>

lemma specification_scenarios:
  "calculateHumanAge ''Dog'' ''Labrador'' 1 [labrador] = Some 10.5"
  "calculateHumanAge ''Dog'' ''Labrador'' 2 [labrador] = Some 21"
  "calculateHumanAge ''Dog'' ''Labrador'' 5 [labrador] = Some 33"
  "calculateHumanAge ''Cat'' ''Siamese'' 3 [labrador] = None"
  "getUniqueSpecies [labrador] = [''Dog'']"
  "getBreedsBySpecies ''Dog'' [labrador] = [''Labrador'']"
  "getBreedsBySpecies ''Cat'' [labrador] = []"
  by (simp_all add: calculateHumanAge_def getUniqueSpecies_def new_Set_def set_add_def
      getBreedsBySpecies_def labrador_def)

lemma getUniqueSpecies_example:
  "getUniqueSpecies [labrador, siamese, poodle, labrador_late] = [''Dog'', ''Cat'']"
  by (simp add: getUniqueSpecies_def new_Set_def set_add_def
      labrador_def siamese_def poodle_def labrador_late_def)

end
